theory Spec2Isabelle
  imports Main
begin

section \<open>The host environment\<close>

text \<open>
  The cell builder of \<^verbatim>\<open>web/static/js/cell.js\<close> runs against a document tree and a heap
  of JavaScript objects. Document nodes and cell objects have reference identity, so both
  are addresses: a node is a number, a cell object is an index into the heap, and
  \<^verbatim>\<open>===\<close> on them is equality of addresses. \<^verbatim>\<open>null\<close> and \<^verbatim>\<open>undefined\<close> are \<open>None\<close>.
\<close>

type_synonym elem = nat
type_synonym ref = nat

text \<open>\<^verbatim>\<open>element.dataset\<close>: the two \<^verbatim>\<open>data-*\<close> attributes the builder reads; an attribute
  that is not on the element reads as \<^verbatim>\<open>undefined\<close>.\<close>

record dataset =
  data_cell :: "string option"
  data_cellParams :: "string option"

text \<open>The document: its nodes in document order, and the attributes of every node.\<close>

record document =
  nodes :: "elem list"
  dataset_of :: "elem \<Rightarrow> dataset"

text \<open>\<^verbatim>\<open>document.querySelectorAll('[data-cell]')\<close>: the nodes that carry the attribute, in
  document order.\<close>

definition querySelectorAll_data_cell :: "document \<Rightarrow> elem list" where
  "querySelectorAll_data_cell doc =
     filter (\<lambda>e. data_cell (dataset_of doc e) \<noteq> None) (nodes doc)"

text \<open>Property keys and template literals turn a value into a string first.\<close>

definition ToString :: "string option \<Rightarrow> string" where
  "ToString v = (case v of None \<Rightarrow> ''undefined'' | Some s \<Rightarrow> s)"

datatype type_error = Not_a_constructor | Not_a_function

datatype error =
    Error string
  | SyntaxError
  | ReferenceError string
  | TypeError type_error
  | RangeError

datatype 'a completion = Normal 'a | Throw error

fun is_Throw :: "'a completion \<Rightarrow> bool" where
  "is_Throw (Throw e) = True"
| "is_Throw (Normal x) = False"

text \<open>\<^verbatim>\<open>JSON.parse\<close> is the host's; \<open>parse\<close> stands for it on attribute text, \<open>None\<close> where
  it raises \<^verbatim>\<open>SyntaxError\<close>. A missing attribute is \<^verbatim>\<open>JSON.parse(undefined)\<close>, which raises
  \<^verbatim>\<open>SyntaxError\<close> as well (the text \<^verbatim>\<open>undefined\<close> is not JSON).\<close>

definition JSON_parse :: "(string \<Rightarrow> 'p option) \<Rightarrow> string option \<Rightarrow> 'p option" where
  "JSON_parse parse v = (case v of None \<Rightarrow> None | Some s \<Rightarrow> parse s)"

section \<open>Cells and the builder's state\<close>

text \<open>
  A class extending \<^verbatim>\<open>Cell\<close>: its name and whether it defines the optional hooks
  \<^verbatim>\<open>onReload\<close> and \<^verbatim>\<open>onDestroy\<close>. What a hook does is application code outside
  \<^verbatim>\<open>cell.js\<close>; the model records that it was called. A subclass may have a constructor
  of its own, which runs after \<^verbatim>\<open>super(...)\<close> and may raise, as the one of \<^verbatim>\<open>Example\<close>
  does when the element has no child for its name: \<open>subclass_constructor\<close> gives the
  error it raises on an element, if any.
\<close>

record cell_class =
  class_name :: string
  defines_onReload :: bool
  defines_onDestroy :: bool
  subclass_constructor :: "elem \<Rightarrow> error option"

text \<open>An instance: the three fields the constructor sets, and the class it was made from.\<close>

record 'p Cell =
  element :: "elem option"
  name :: string
  params :: 'p
  class_of :: cell_class

text \<open>The heap holds cells and, since \<^verbatim>\<open>new (cellConstructor)(element)\<close> can run the host's
  \<^verbatim>\<open>Array\<close> function, arrays of elements.\<close>

datatype 'p obj = Cell_object "'p Cell" | Array_object "elem list"

text \<open>
  To state which calls the builder makes, the model keeps a log of them: every
  construction of a cell, every call of \<^verbatim>\<open>reload\<close> and \<^verbatim>\<open>destroy\<close> with its argument, and
  every call of a subclass hook with its argument. \<open>OnDestroy\<close> also records the value of
  \<^verbatim>\<open>this.element\<close> at the moment the hook is called. The log is not a variable of the
  source.
\<close>

datatype event =
    Constructed ref elem
  | ReloadCalled ref "elem option"
  | OnReload ref "elem option"
  | DestroyCalled ref "elem option"
  | OnDestroy ref "elem option" "elem option"

text \<open>
  \<^verbatim>\<open>availableCells\<close> is created as \<^verbatim>\<open>[]\<close>, a JavaScript array, and used as a dictionary
  from class names to classes. Reading \<^verbatim>\<open>this.availableCells[cellName]\<close> therefore sees
  more than the registered classes: the array's own \<^verbatim>\<open>length\<close>, and every property that
  an array inherits from the host (\<^verbatim>\<open>constructor\<close>, which is the function \<^verbatim>\<open>Array\<close>, and
  methods such as \<^verbatim>\<open>map\<close> or \<^verbatim>\<open>toString\<close>).
\<close>

datatype inherited = The_Array_function | Another_object

datatype property_value =
    Class cell_class
  | Number nat
  | Inherited inherited

text \<open>
  The \<^verbatim>\<open>Builder\<close> singleton with the object heap and the log. \<open>availableCells\<close> holds the
  classes that \<^verbatim>\<open>register\<close> has stored, \<open>availableCells_length\<close> is the \<^verbatim>\<open>length\<close> of that
  array, and \<open>inherited\<close> is the host's table of the properties an array inherits.
\<close>

record 'p world =
  activeCells :: "ref list"
  availableCells :: "string \<rightharpoonup> cell_class"
  availableCells_length :: nat
  inherited :: "string \<rightharpoonup> inherited"
  heap :: "'p obj list"
  trace :: "event list"

definition object_at :: "'p world \<Rightarrow> ref \<Rightarrow> 'p obj option" where
  "object_at w r = (if r < length (heap w) then Some (heap w ! r) else None)"

definition cell_at :: "'p world \<Rightarrow> ref \<Rightarrow> 'p Cell option" where
  "cell_at w r =
     (case object_at w r of
        Some (Cell_object c) \<Rightarrow> Some c
      | _ \<Rightarrow> None)"

text \<open>\<^verbatim>\<open>cell.element\<close>; an array has no such property, and the read gives \<^verbatim>\<open>undefined\<close>.\<close>

definition element_of :: "'p world \<Rightarrow> ref \<Rightarrow> elem option" where
  "element_of w r = (case cell_at w r of None \<Rightarrow> None | Some c \<Rightarrow> element c)"

section \<open>The array availableCells\<close>

text \<open>
  A property name is an array index when it is the decimal numeral, without leading
  zeros, of a number below 4294967295. Storing under such a name makes the array
  longer than that number.
\<close>

definition is_digit :: "char \<Rightarrow> bool" where
  "is_digit c = (c \<in> set ''0123456789'')"

definition array_index :: "string \<Rightarrow> nat option" where
  "array_index s =
     (if s = [] \<or> \<not> list_all is_digit s then None
      else if hd s = CHR ''0'' \<and> 1 < length s then None
      else (let n = foldl (\<lambda>a c. 10 * a + (of_char c - 48)) 0 s
            in if n < 4294967295 then Some n else None))"

text \<open>
  \<^verbatim>\<open>this.availableCells[k]\<close>: the array's own properties come first (\<^verbatim>\<open>length\<close> and the
  stored classes), then the inherited ones. \<^verbatim>\<open>__proto__\<close> reads as the array's prototype
  object. \<open>None\<close> is \<^verbatim>\<open>undefined\<close>.
\<close>

definition lookup :: "'p world \<Rightarrow> string \<Rightarrow> property_value option" where
  "lookup w k =
     (if k = ''length'' then Some (Number (availableCells_length w))
      else if k = ''__proto__'' then Some (Inherited Another_object)
      else case availableCells w k of
             Some c \<Rightarrow> Some (Class c)
           | None \<Rightarrow> map_option Inherited (inherited w k))"

text \<open>What \<^verbatim>\<open>if (v)\<close> takes for true: a class, a function or an object, and a number other
  than 0.\<close>

definition truthy :: "property_value option \<Rightarrow> bool" where
  "truthy v = (case v of None \<Rightarrow> False | Some (Number n) \<Rightarrow> n \<noteq> 0 | Some _ \<Rightarrow> True)"

section \<open>class Cell\<close>

text \<open>
  \<^verbatim>\<open>constructor(element)\<close>: sets \<open>element\<close>, \<open>name\<close> and \<open>params\<close>. The new object gets the
  next free address. When \<^verbatim>\<open>JSON.parse\<close> raises, the constructor raises and no object is
  returned.
\<close>

definition Cell_constructor ::
  "(string \<Rightarrow> 'p option) \<Rightarrow> document \<Rightarrow> cell_class \<Rightarrow> elem \<Rightarrow> 'p world
     \<Rightarrow> ref completion \<times> 'p world" where
  "Cell_constructor parse doc cls el w =
     (case JSON_parse parse (data_cellParams (dataset_of doc el)) of
        None \<Rightarrow> (Throw SyntaxError, w)
      | Some ps \<Rightarrow>
          (Normal (length (heap w)),
           w\<lparr>heap := heap w @
                [Cell_object
                   \<lparr>element = Some el, name = class_name cls, params = ps, class_of = cls\<rparr>],
             trace := trace w @ [Constructed (length (heap w)) el]\<rparr>))"

text \<open>\<^verbatim>\<open>destroy(element)\<close>: clears \<open>this.element\<close>, calls \<^verbatim>\<open>onDestroy\<close> when the class
  defines it, returns its argument. The method is called on cells only; the \<open>None\<close>
  branch only makes the function total.\<close>

definition destroy :: "ref \<Rightarrow> elem option \<Rightarrow> 'p world \<Rightarrow> elem option \<times> 'p world" where
  "destroy this el w =
     (case cell_at w this of
        None \<Rightarrow> (el, w)
      | Some c \<Rightarrow>
          (let w1 = w\<lparr>heap := (heap w)[this := Cell_object (c\<lparr>element := None\<rparr>)],
                      trace := trace w @ [DestroyCalled this el]\<rparr>;
               w2 = (if defines_onDestroy (class_of c)
                     then w1\<lparr>trace := trace w1 @ [OnDestroy this el (element_of w1 this)]\<rparr>
                     else w1)
           in (el, w2)))"

text \<open>\<^verbatim>\<open>reload(element)\<close>: calls \<^verbatim>\<open>onReload\<close> when the class defines it, returns its
  argument.\<close>

definition reload_cell :: "ref \<Rightarrow> elem option \<Rightarrow> 'p world \<Rightarrow> elem option \<times> 'p world" where
  "reload_cell this el w =
     (case cell_at w this of
        None \<Rightarrow> (el, w)
      | Some c \<Rightarrow>
          (let w1 = w\<lparr>trace := trace w @ [ReloadCalled this el]\<rparr>;
               w2 = (if defines_onReload (class_of c)
                     then w1\<lparr>trace := trace w1 @ [OnReload this el]\<rparr>
                     else w1)
           in (el, w2)))"

section \<open>Builder\<close>

text \<open>
  \<^verbatim>\<open>register(cell)\<close>: returns when the array has a truthy property of the class's name,
  else assigns. Assigning a class to \<^verbatim>\<open>length\<close> raises \<^verbatim>\<open>RangeError\<close> (invalid array
  length).
\<close>

definition register :: "cell_class \<Rightarrow> 'p world \<Rightarrow> unit completion \<times> 'p world" where
  "register cell w =
     (let cellName = class_name cell
      in if truthy (lookup w cellName) then (Normal (), w)
         else if cellName = ''length'' then (Throw RangeError, w)
         else (Normal (),
               w\<lparr>availableCells := (availableCells w)(cellName \<mapsto> cell),
                 availableCells_length :=
                   (case array_index cellName of
                      None \<Rightarrow> availableCells_length w
                    | Some i \<Rightarrow> max (availableCells_length w) (Suc i))\<rparr>))"

text \<open>
  \<^verbatim>\<open>findByElement(element, cells = this.activeCells)\<close>: the body is one expression
  statement, \<^verbatim>\<open>(cells || this.activeCells).find(...)\<close>. Its value is computed and dropped,
  and the function ends without a \<^verbatim>\<open>return\<close>, so the call evaluates to \<^verbatim>\<open>undefined\<close>.
\<close>

definition findByElement :: "'p world \<Rightarrow> elem option \<Rightarrow> ref list option \<Rightarrow> ref option" where
  "findByElement w el cells =
     (let cs = (case cells of None \<Rightarrow> activeCells w | Some l \<Rightarrow> l);
          dropped = List.find (\<lambda>cell. element_of w cell = el) cs
      in None)"

text \<open>\<^verbatim>\<open>[].map.call(list, f)\<close> where \<open>f\<close> may raise: the first exception ends the loop.\<close>

fun map_call ::
  "('a \<Rightarrow> 'w \<Rightarrow> 'b completion \<times> 'w) \<Rightarrow> 'a list \<Rightarrow> 'w \<Rightarrow> 'b list completion \<times> 'w" where
  "map_call f [] w = (Normal [], w)"
| "map_call f (x # xs) w =
     (case f x w of
        (Throw e, w1) \<Rightarrow> (Throw e, w1)
      | (Normal y, w1) \<Rightarrow>
          (case map_call f xs w1 of
             (Throw e, w2) \<Rightarrow> (Throw e, w2)
           | (Normal ys, w2) \<Rightarrow> (Normal (y # ys), w2)))"

text \<open>
  \<^verbatim>\<open>new (cellConstructor)(element)\<close>. For a class, the constructor of \<^verbatim>\<open>Cell\<close> runs, then
  the subclass's own. The function \<^verbatim>\<open>Array\<close> makes the array \<^verbatim>\<open>[element]\<close>. A number and
  any other inherited function or object cannot be constructed: \<^verbatim>\<open>TypeError\<close>.
\<close>

definition construct ::
  "(string \<Rightarrow> 'p option) \<Rightarrow> document \<Rightarrow> property_value \<Rightarrow> elem \<Rightarrow> 'p world
     \<Rightarrow> ref completion \<times> 'p world" where
  "construct parse doc ctor el w =
     (case ctor of
        Class cls \<Rightarrow>
          (case Cell_constructor parse doc cls el w of
             (Throw e, w1) \<Rightarrow> (Throw e, w1)
           | (Normal r, w1) \<Rightarrow>
               (case subclass_constructor cls el of
                  Some e \<Rightarrow> (Throw e, w1)
                | None \<Rightarrow> (Normal r, w1)))
      | Number n \<Rightarrow> (Throw (TypeError Not_a_constructor), w)
      | Inherited The_Array_function \<Rightarrow>
          (Normal (length (heap w)), w\<lparr>heap := heap w @ [Array_object [el]]\<rparr>)
      | Inherited Another_object \<Rightarrow> (Throw (TypeError Not_a_constructor), w))"

text \<open>The arrow function of \<^verbatim>\<open>findAndBuild\<close>. In the branch for a found cell the source
  returns the variable \<^verbatim>\<open>cell\<close>, which is not declared in that scope: a
  \<^verbatim>\<open>ReferenceError\<close>.\<close>

definition findAndBuild_each ::
  "(string \<Rightarrow> 'p option) \<Rightarrow> document \<Rightarrow> elem \<Rightarrow> 'p world \<Rightarrow> ref completion \<times> 'p world" where
  "findAndBuild_each parse doc el w =
     (let cellName = data_cell (dataset_of doc el);
          cellConstructor = lookup w (ToString cellName);
          foundCell = findByElement w (Some el) None
      in if \<not> truthy cellConstructor
         then (Throw (Error (''Cell with name '' @ ToString cellName @ '' not found'')), w)
         else case cellConstructor of
           None \<Rightarrow> (Throw (Error (''Cell with name '' @ ToString cellName @ '' not found'')), w)
         | Some ctor \<Rightarrow>
             (case foundCell of
                Some fc \<Rightarrow>
                  (let (r, w1) = reload_cell fc (Some el) w
                   in (Throw (ReferenceError ''cell''), w1))
              | None \<Rightarrow> construct parse doc ctor el w))"

definition findAndBuild ::
  "(string \<Rightarrow> 'p option) \<Rightarrow> document \<Rightarrow> 'p world \<Rightarrow> ref list completion \<times> 'p world" where
  "findAndBuild parse doc w =
     map_call (findAndBuild_each parse doc) (querySelectorAll_data_cell doc) w"

text \<open>\<^verbatim>\<open>array.filter(f)\<close> where \<open>f\<close> has effects and may raise.\<close>

fun filter_call ::
  "('a \<Rightarrow> 'w \<Rightarrow> bool completion \<times> 'w) \<Rightarrow> 'a list \<Rightarrow> 'w \<Rightarrow> 'a list completion \<times> 'w" where
  "filter_call f [] w = (Normal [], w)"
| "filter_call f (x # xs) w =
     (case f x w of
        (Throw e, w1) \<Rightarrow> (Throw e, w1)
      | (Normal keep, w1) \<Rightarrow>
          (case filter_call f xs w1 of
             (Throw e, w2) \<Rightarrow> (Throw e, w2)
           | (Normal ys, w2) \<Rightarrow> (Normal (if keep then x # ys else ys), w2)))"

text \<open>The arrow function of \<^verbatim>\<open>destroyOrphans\<close>: \<^verbatim>\<open>cell.destroy()\<close> is called without an
  argument. An array has no \<^verbatim>\<open>destroy\<close>, and calling it raises \<^verbatim>\<open>TypeError\<close>.\<close>

definition destroyOrphans_each :: "ref list \<Rightarrow> ref \<Rightarrow> 'p world \<Rightarrow> bool completion \<times> 'p world" where
  "destroyOrphans_each found cell w =
     (case findByElement w (element_of w cell) (Some found) of
        None \<Rightarrow>
          (case object_at w cell of
             Some (Array_object a) \<Rightarrow> (Throw (TypeError Not_a_function), w)
           | _ \<Rightarrow> (let (r, w1) = destroy cell None w in (Normal False, w1)))
      | Some c \<Rightarrow> (Normal True, w))"

definition destroyOrphans :: "ref list \<Rightarrow> 'p world \<Rightarrow> ref list completion \<times> 'p world" where
  "destroyOrphans found w = filter_call (destroyOrphans_each found) (activeCells w) w"

text \<open>\<^verbatim>\<open>reload()\<close>: an exception of \<^verbatim>\<open>findAndBuild\<close> leaves the function before the two
  statements after it, one of \<^verbatim>\<open>destroyOrphans\<close> before the assignment.\<close>

definition reload ::
  "(string \<Rightarrow> 'p option) \<Rightarrow> document \<Rightarrow> 'p world \<Rightarrow> unit completion \<times> 'p world" where
  "reload parse doc w =
     (case findAndBuild parse doc w of
        (Throw e, w1) \<Rightarrow> (Throw e, w1)
      | (Normal found, w1) \<Rightarrow>
          (case destroyOrphans found w1 of
             (Throw e, w2) \<Rightarrow> (Throw e, w2)
           | (Normal orphans, w2) \<Rightarrow> (Normal (), w2\<lparr>activeCells := found\<rparr>)))"

definition initialize ::
  "(string \<Rightarrow> 'p option) \<Rightarrow> document \<Rightarrow> 'p world \<Rightarrow> unit completion \<times> 'p world" where
  "initialize parse doc w = reload parse doc w"

text \<open>
  The properties an array inherits in a host of ECMAScript 2023: \<^verbatim>\<open>constructor\<close> is the
  function \<^verbatim>\<open>Array\<close>, the others are methods of \<^verbatim>\<open>Array.prototype\<close> and
  \<^verbatim>\<open>Object.prototype\<close>.
\<close>

definition inherited_methods :: "string list" where
  "inherited_methods =
     [''at'', ''concat'', ''copyWithin'', ''entries'', ''every'', ''fill'', ''filter'',
      ''find'', ''findIndex'', ''findLast'', ''findLastIndex'', ''flat'', ''flatMap'',
      ''forEach'', ''includes'', ''indexOf'', ''join'', ''keys'', ''lastIndexOf'', ''map'',
      ''pop'', ''push'', ''reduce'', ''reduceRight'', ''reverse'', ''shift'', ''slice'',
      ''some'', ''sort'', ''splice'', ''toLocaleString'', ''toReversed'', ''toSorted'',
      ''toSpliced'', ''toString'', ''unshift'', ''values'', ''with'',
      ''hasOwnProperty'', ''isPrototypeOf'', ''propertyIsEnumerable'', ''valueOf'',
      ''__defineGetter__'', ''__defineSetter__'', ''__lookupGetter__'', ''__lookupSetter__'']"

definition Array_inherited :: "string \<rightharpoonup> inherited" where
  "Array_inherited k =
     (if k = ''constructor'' then Some The_Array_function
      else if k \<in> set inherited_methods then Some Another_object
      else None)"

text \<open>The builder as the module creates it: no active cell, nothing registered, an empty
  array.\<close>

definition Builder_init :: "'p world" where
  "Builder_init =
     \<lparr>activeCells = [], availableCells = Map.empty, availableCells_length = 0,
      inherited = Array_inherited, heap = [], trace = []\<rparr>"

section \<open>What a call did\<close>

text \<open>The part of the log written between two states.\<close>

definition events_during :: "'p world \<Rightarrow> 'p world \<Rightarrow> event list" where
  "events_during w w' = drop (length (trace w)) (trace w')"

fun is_Constructed :: "event \<Rightarrow> bool" where
  "is_Constructed (Constructed r e) = True"
| "is_Constructed ev = False"

text \<open>The calls of \<^verbatim>\<open>destroy\<close> on one cell object, and the calls of \<^verbatim>\<open>reload\<close> on any
  cell, in a piece of the log.\<close>

definition destroy_calls :: "ref \<Rightarrow> event list \<Rightarrow> event list" where
  "destroy_calls r evs =
     filter (\<lambda>ev. case ev of DestroyCalled r' a \<Rightarrow> r' = r | _ \<Rightarrow> False) evs"

definition reload_calls :: "event list \<Rightarrow> event list" where
  "reload_calls evs =
     filter (\<lambda>ev. case ev of ReloadCalled r a \<Rightarrow> True | _ \<Rightarrow> False) evs"

text \<open>What \<^verbatim>\<open>cell.destroy()\<close> writes to the log for the cell at \<open>r\<close> of heap \<open>h\<close>.\<close>

definition destroy_log :: "'p obj list \<Rightarrow> ref \<Rightarrow> event list" where
  "destroy_log h r =
     (case h ! r of
        Cell_object c \<Rightarrow>
          DestroyCalled r None #
            (if defines_onDestroy (class_of c) then [OnDestroy r None None] else [])
      | Array_object a \<Rightarrow> [])"

text \<open>The object after \<^verbatim>\<open>destroy\<close>.\<close>

definition cleared :: "'p obj \<Rightarrow> 'p obj" where
  "cleared ob = (case ob of Cell_object c \<Rightarrow> Cell_object (c\<lparr>element := None\<rparr>) | Array_object a \<Rightarrow> ob)"

fun is_Cell :: "'p obj \<Rightarrow> bool" where
  "is_Cell (Cell_object c) = True"
| "is_Cell (Array_object a) = False"

text \<open>The state after a list of registrations, one after the other.\<close>

definition register_all :: "cell_class list \<Rightarrow> 'p world \<Rightarrow> 'p world" where
  "register_all ds w = fold (\<lambda>d v. snd (register d v)) ds w"

section \<open>A page to run the builder on\<close>

text \<open>A stand-in for \<^verbatim>\<open>JSON.parse\<close> in the examples: it decodes the JSON numbers 1, 2
  and 3 and rejects every other text.\<close>

definition parse_sample :: "string \<Rightarrow> nat option" where
  "parse_sample s =
     (if s = ''1'' then Some 1 else if s = ''2'' then Some 2
      else if s = ''3'' then Some 3 else None)"

definition Foo :: cell_class where
  "Foo = \<lparr>class_name = ''Foo'', defines_onReload = True, defines_onDestroy = True,
          subclass_constructor = (\<lambda>e. None)\<rparr>"

definition Bar :: cell_class where
  "Bar = \<lparr>class_name = ''Bar'', defines_onReload = True, defines_onDestroy = False,
          subclass_constructor = (\<lambda>e. None)\<rparr>"

text \<open>Another class that is named \<^verbatim>\<open>Foo\<close>.\<close>

definition Foo2 :: cell_class where
  "Foo2 = \<lparr>class_name = ''Foo'', defines_onReload = False, defines_onDestroy = False,
           subclass_constructor = (\<lambda>e. None)\<rparr>"

text \<open>A class that is named \<^verbatim>\<open>length\<close>, and one that is named \<^verbatim>\<open>constructor\<close>.\<close>

definition Length_class :: cell_class where
  "Length_class = \<lparr>class_name = ''length'', defines_onReload = False,
           defines_onDestroy = False, subclass_constructor = (\<lambda>e. None)\<rparr>"

definition Constructor_class :: cell_class where
  "Constructor_class = \<lparr>class_name = ''constructor'', defines_onReload = False,
           defines_onDestroy = False, subclass_constructor = (\<lambda>e. None)\<rparr>"

definition no_data :: dataset where
  "no_data = \<lparr>data_cell = None, data_cellParams = None\<rparr>"

text \<open>Node 1 is a \<^verbatim>\<open>Foo\<close> with parameters 1, node 2 a \<^verbatim>\<open>Bar\<close> with parameters 2; node 7 is
  markup without a cell.\<close>

definition page1 :: document where
  "page1 = \<lparr>nodes = [7, 1, 2],
            dataset_of = (\<lambda>e. no_data)
              (1 := \<lparr>data_cell = Some ''Foo'', data_cellParams = Some ''1''\<rparr>,
               2 := \<lparr>data_cell = Some ''Bar'', data_cellParams = Some ''2''\<rparr>)\<rparr>"

text \<open>The page after node 1 is removed and node 3, a \<^verbatim>\<open>Foo\<close> with parameters 3, is added.\<close>

definition page2 :: document where
  "page2 = \<lparr>nodes = [7, 2, 3],
            dataset_of = (\<lambda>e. no_data)
              (2 := \<lparr>data_cell = Some ''Bar'', data_cellParams = Some ''2''\<rparr>,
               3 := \<lparr>data_cell = Some ''Foo'', data_cellParams = Some ''3''\<rparr>)\<rparr>"

text \<open>A page with two faults: node 1 is a \<^verbatim>\<open>Foo\<close> whose parameters are not JSON, node 2
  names \<^verbatim>\<open>Baz\<close>, which is never registered.\<close>

definition page_faulty :: document where
  "page_faulty = \<lparr>nodes = [1, 2],
            dataset_of = (\<lambda>e. no_data)
              (1 := \<lparr>data_cell = Some ''Foo'', data_cellParams = Some ''{''\<rparr>,
               2 := \<lparr>data_cell = Some ''Baz'', data_cellParams = Some ''2''\<rparr>)\<rparr>"

text \<open>A page whose second cell names \<^verbatim>\<open>Baz\<close>, which is never registered.\<close>

definition page_unknown :: document where
  "page_unknown = \<lparr>nodes = [1, 2],
            dataset_of = (\<lambda>e. no_data)
              (1 := \<lparr>data_cell = Some ''Foo'', data_cellParams = Some ''1''\<rparr>,
               2 := \<lparr>data_cell = Some ''Baz'', data_cellParams = Some ''2''\<rparr>)\<rparr>"

text \<open>A page whose second cell has no \<^verbatim>\<open>data-cell-params\<close> attribute.\<close>

definition page_no_params :: document where
  "page_no_params = \<lparr>nodes = [1, 2],
            dataset_of = (\<lambda>e. no_data)
              (1 := \<lparr>data_cell = Some ''Foo'', data_cellParams = Some ''1''\<rparr>,
               2 := \<lparr>data_cell = Some ''Bar'', data_cellParams = None\<rparr>)\<rparr>"

text \<open>A page whose second cell names \<^verbatim>\<open>constructor\<close>, which no class is registered
  under.\<close>

definition page_constructor :: document where
  "page_constructor = \<lparr>nodes = [1, 2],
            dataset_of = (\<lambda>e. no_data)
              (1 := \<lparr>data_cell = Some ''Foo'', data_cellParams = Some ''1''\<rparr>,
               2 := \<lparr>data_cell = Some ''constructor'', data_cellParams = None\<rparr>)\<rparr>"

text \<open>The builder after both classes are registered.\<close>

definition registered :: "nat world" where
  "registered = snd (register Bar (snd (register Foo Builder_init)))"

text \<open>The builder after \<^verbatim>\<open>initialize()\<close> on the first page.\<close>

definition loaded :: "nat world" where
  "loaded = snd (initialize parse_sample page1 registered)"

text \<open>The builder after \<^verbatim>\<open>initialize()\<close> on the page with the cell named
  \<^verbatim>\<open>constructor\<close>.\<close>

definition loaded_constructor :: "nat world" where
  "loaded_constructor = snd (initialize parse_sample page_constructor registered)"

section \<open>Effects of the builder's loops\<close>

lemma findByElement_undefined [simp]: "findByElement w el cells = None"
  by (simp add: findByElement_def Let_def)

lemma lookup_cong:
  "availableCells w1 = availableCells w \<Longrightarrow> availableCells_length w1 = availableCells_length w
   \<Longrightarrow> inherited w1 = inherited w \<Longrightarrow> lookup w1 = lookup w"
  by (rule ext) (simp add: lookup_def split: option.splits)

lemma findAndBuild_each_eq:
  "findAndBuild_each parse doc el w =
     (case lookup w (ToString (data_cell (dataset_of doc el))) of
        None \<Rightarrow> (Throw (Error (''Cell with name '' @ ToString (data_cell (dataset_of doc el))
                                  @ '' not found'')), w)
      | Some ctor \<Rightarrow>
          if truthy (Some ctor) then construct parse doc ctor el w
          else (Throw (Error (''Cell with name '' @ ToString (data_cell (dataset_of doc el))
                                  @ '' not found'')), w))"
  by (simp add: findAndBuild_each_def Let_def split: option.splits)

lemma Cell_constructor_effect:
  assumes "Cell_constructor parse doc cls el w = (res, w1)"
  shows "activeCells w1 = activeCells w \<and> lookup w1 = lookup w
     \<and> (\<exists>os evs. heap w1 = heap w @ os \<and> trace w1 = trace w @ evs \<and> list_all is_Constructed evs
           \<and> (\<forall>r. res = Normal r \<longrightarrow> r = length (heap w) \<and> length os = 1))"
proof (cases "JSON_parse parse (data_cellParams (dataset_of doc el))")
  case None
  with assms have "w1 = w" "res = Throw SyntaxError" by (simp_all add: Cell_constructor_def)
  then show ?thesis by simp
next
  case (Some ps)
  let ?ob = "Cell_object \<lparr>element = Some el, name = class_name cls, params = ps, class_of = cls\<rparr>"
  from Some assms have w1: "w1 = w\<lparr>heap := heap w @ [?ob],
             trace := trace w @ [Constructed (length (heap w)) el]\<rparr>"
    and res: "res = Normal (length (heap w))"
    by (auto simp: Cell_constructor_def)
  have "lookup w1 = lookup w" by (rule lookup_cong) (simp_all add: w1)
  moreover have "heap w1 = heap w @ [?ob]" by (simp add: w1)
  moreover have "trace w1 = trace w @ [Constructed (length (heap w)) el]" by (simp add: w1)
  moreover have "list_all is_Constructed [Constructed (length (heap w)) el]" by simp
  moreover have "activeCells w1 = activeCells w" by (simp add: w1)
  moreover have "\<forall>r. res = Normal r \<longrightarrow> r = length (heap w) \<and> length [?ob] = 1"
    using res by simp
  ultimately show ?thesis by blast
qed

lemma construct_effect:
  assumes "construct parse doc ctor el w = (res, w1)"
  shows "activeCells w1 = activeCells w \<and> lookup w1 = lookup w
     \<and> (\<exists>os evs. heap w1 = heap w @ os \<and> trace w1 = trace w @ evs \<and> list_all is_Constructed evs
           \<and> (\<forall>r. res = Normal r \<longrightarrow> r = length (heap w) \<and> length os = 1))"
proof (cases ctor)
  case (Class cls)
  obtain r0 wa where base: "Cell_constructor parse doc cls el w = (r0, wa)"
    by (cases "Cell_constructor parse doc cls el w")
  have wa: "w1 = wa" using assms Class base
    by (cases r0; cases "subclass_constructor cls el") (simp_all add: construct_def)
  have res: "\<forall>r. res = Normal r \<longrightarrow> r0 = Normal r" using assms Class base
    by (cases r0; cases "subclass_constructor cls el") (auto simp: construct_def)
  from Cell_constructor_effect[OF base] wa res show ?thesis by blast
next
  case (Number n)
  with assms have "w1 = w" "res = Throw (TypeError Not_a_constructor)"
    by (simp_all add: construct_def)
  then show ?thesis by simp
next
  case (Inherited i)
  show ?thesis
  proof (cases i)
    case The_Array_function
    with Inherited assms have w1: "w1 = w\<lparr>heap := heap w @ [Array_object [el]]\<rparr>"
      and res: "res = Normal (length (heap w))" by (simp_all add: construct_def)
    have "lookup w1 = lookup w" by (rule lookup_cong) (simp_all add: w1)
    moreover have "heap w1 = heap w @ [Array_object [el]]" by (simp add: w1)
    moreover have "trace w1 = trace w @ []" by (simp add: w1)
    moreover have "list_all is_Constructed []" by simp
    moreover have "activeCells w1 = activeCells w" by (simp add: w1)
    moreover have "\<forall>r. res = Normal r \<longrightarrow> r = length (heap w) \<and> length [Array_object [el]] = 1"
      using res by simp
    ultimately show ?thesis by blast
  next
    case Another_object
    with Inherited assms have "w1 = w" "res = Throw (TypeError Not_a_constructor)"
      by (simp_all add: construct_def)
    then show ?thesis by simp
  qed
qed

lemma each_effect:
  assumes "findAndBuild_each parse doc el w = (res, w1)"
  shows "activeCells w1 = activeCells w \<and> lookup w1 = lookup w
     \<and> (\<exists>os evs. heap w1 = heap w @ os \<and> trace w1 = trace w @ evs \<and> list_all is_Constructed evs
           \<and> (\<forall>r. res = Normal r \<longrightarrow> r = length (heap w) \<and> length os = 1))"
proof (cases "lookup w (ToString (data_cell (dataset_of doc el)))")
  case None
  with assms have "w1 = w" "\<forall>r. res \<noteq> Normal r" by (auto simp: findAndBuild_each_eq)
  then show ?thesis by simp
next
  case (Some ctor)
  show ?thesis
  proof (cases "truthy (Some ctor)")
    case True
    with Some assms have "construct parse doc ctor el w = (res, w1)"
      by (simp add: findAndBuild_each_eq)
    then show ?thesis by (rule construct_effect)
  next
    case False
    with Some assms have "w1 = w" "\<forall>r. res \<noteq> Normal r" by (auto simp: findAndBuild_each_eq)
    then show ?thesis by simp
  qed
qed

lemma build_effect:
  "map_call (findAndBuild_each parse doc) es w = (res, w1) \<Longrightarrow>
     activeCells w1 = activeCells w \<and> lookup w1 = lookup w
     \<and> (\<exists>os evs. heap w1 = heap w @ os \<and> trace w1 = trace w @ evs \<and> list_all is_Constructed evs
           \<and> (\<forall>found. res = Normal found \<longrightarrow>
                 found = [length (heap w)..<length (heap w) + length es]
                 \<and> length os = length es))"
proof (induction es arbitrary: w res)
  case Nil
  then show ?case by auto
next
  case (Cons e es)
  obtain r0 wa where step: "findAndBuild_each parse doc e w = (r0, wa)"
    by (cases "findAndBuild_each parse doc e w")
  from each_effect[OF step] obtain os evs where a: "activeCells wa = activeCells w"
    "lookup wa = lookup w" "heap wa = heap w @ os" "trace wa = trace w @ evs"
    "list_all is_Constructed evs"
    "\<forall>r. r0 = Normal r \<longrightarrow> r = length (heap w) \<and> length os = 1" by blast
  show ?case
  proof (cases r0)
    case (Throw x)
    with Cons.prems step have "w1 = wa" "\<forall>found. res \<noteq> Normal found" by auto
    with a show ?thesis by auto
  next
    case (Normal r)
    with a(6) have r: "r = length (heap w)" "length os = 1" by simp_all
    obtain r1 wb where rest: "map_call (findAndBuild_each parse doc) es wa = (r1, wb)"
      by (cases "map_call (findAndBuild_each parse doc) es wa")
    from Cons.prems step Normal rest have wb: "w1 = wb"
      and res: "\<forall>found. res = Normal found \<longrightarrow> (\<exists>ys. r1 = Normal ys \<and> found = r # ys)"
      by (cases r1; auto)+
    from Cons.IH[of wa r1] rest wb obtain os' evs' where ih: "activeCells w1 = activeCells wa"
      "lookup w1 = lookup wa" "heap w1 = heap wa @ os'" "trace w1 = trace wa @ evs'"
      "list_all is_Constructed evs'"
      "\<forall>found. r1 = Normal found \<longrightarrow>
                 found = [length (heap wa)..<length (heap wa) + length es]
                 \<and> length os' = length es" by blast
    have h: "heap w1 = heap w @ (os @ os')" using ih(3) a(3) by simp
    have t: "trace w1 = trace w @ (evs @ evs')" using ih(4) a(4) by simp
    have c: "list_all is_Constructed (evs @ evs')" using ih(5) a(5) by simp
    have f: "\<forall>found. res = Normal found \<longrightarrow>
                 found = [length (heap w)..<length (heap w) + length (e # es)]
                 \<and> length (os @ os') = length (e # es)"
    proof (intro allI impI)
      fix found assume "res = Normal found"
      with res obtain ys where ys: "r1 = Normal ys" "found = r # ys" by blast
      with ih(6) have "ys = [length (heap wa)..<length (heap wa) + length es]"
        "length os' = length es" by simp_all
      with ys(2) r a(3) show "found = [length (heap w)..<length (heap w) + length (e # es)]
                 \<and> length (os @ os') = length (e # es)"
        by (simp add: upt_rec)
    qed
    from h t c f ih(1,2) a(1,2) show ?thesis by (metis (no_types, lifting))
  qed
qed

lemma destroy_effect:
  assumes "r < length (heap w)" and "heap w ! r = Cell_object c"
  shows "destroy r a w =
     (a, w\<lparr>heap := (heap w)[r := Cell_object (c\<lparr>element := None\<rparr>)],
           trace := trace w @ DestroyCalled r a #
              (if defines_onDestroy (class_of c) then [OnDestroy r a None] else [])\<rparr>)"
  using assms by (simp add: destroy_def cell_at_def object_at_def element_of_def Let_def)

lemma destroyOrphans_each_Cell:
  assumes "r < length (heap w)" and "heap w ! r = Cell_object c"
  shows "destroyOrphans_each found r w =
     (Normal False, w\<lparr>heap := (heap w)[r := cleared (heap w ! r)],
                      trace := trace w @ destroy_log (heap w) r\<rparr>)"
  using assms
  by (simp add: destroyOrphans_each_def destroy_effect destroy_log_def cleared_def object_at_def)

lemma destroyOrphans_each_Array:
  assumes "r < length (heap w)" and "heap w ! r = Array_object a"
  shows "destroyOrphans_each found r w = (Throw (TypeError Not_a_function), w)"
  using assms by (simp add: destroyOrphans_each_def object_at_def)

lemma cleared_cleared [simp]: "cleared (cleared ob) = cleared ob"
  by (cases ob) (simp_all add: cleared_def)

lemma is_Cell_cleared [simp]: "is_Cell (cleared ob) = is_Cell ob"
  by (cases ob) (simp_all add: cleared_def)

lemma destroy_log_update:
  "destroy_log (h[c := cleared (h ! c)]) r = destroy_log h r"
proof (cases "c < length h")
  case True
  show ?thesis
  proof (cases "r = c")
    case True
    with \<open>c < length h\<close> show ?thesis
      by (cases "h ! c") (simp_all add: destroy_log_def cleared_def)
  next
    case False
    then show ?thesis by (simp add: destroy_log_def)
  qed
next
  case False
  then show ?thesis by (simp add: destroy_log_def list_update_beyond)
qed

lemma filter_destroy_effect:
  "\<forall>r\<in>set cs. r < length (heap w) \<Longrightarrow>
   filter_call (destroyOrphans_each found) cs w = (Normal kept, w') \<Longrightarrow>
     kept = [] \<and> activeCells w' = activeCells w \<and> lookup w' = lookup w
     \<and> length (heap w') = length (heap w)
     \<and> (\<forall>r\<in>set cs. is_Cell (heap w ! r))
     \<and> (\<forall>i<length (heap w). heap w' ! i =
            (if i \<in> set cs then cleared (heap w ! i) else heap w ! i))
     \<and> trace w' = trace w @ concat (map (destroy_log (heap w)) cs)"
proof (induction cs arbitrary: w kept)
  case Nil
  then show ?case by simp
next
  case (Cons c cs)
  from Cons.prems(1) have c: "c < length (heap w)" by simp
  show ?case
  proof (cases "heap w ! c")
    case (Array_object a)
    from destroyOrphans_each_Array[OF c this] Cons.prems(2) show ?thesis by simp
  next
    case (Cell_object cell)
    let ?w1 = "w\<lparr>heap := (heap w)[c := cleared (heap w ! c)],
                 trace := trace w @ destroy_log (heap w) c\<rparr>"
    have step: "destroyOrphans_each found c w = (Normal False, ?w1)"
      using c Cell_object by (rule destroyOrphans_each_Cell)
    obtain r1 wb where rest: "filter_call (destroyOrphans_each found) cs ?w1 = (r1, wb)"
      by (cases "filter_call (destroyOrphans_each found) cs ?w1")
    from Cons.prems(2) step rest have rest': 
      "filter_call (destroyOrphans_each found) cs ?w1 = (Normal kept, w')"
      by (cases r1) simp_all
    have bound: "\<forall>r\<in>set cs. r < length (heap ?w1)" using Cons.prems(1) by simp
    from Cons.IH[OF bound rest'] have ih:
      "kept = []" "activeCells w' = activeCells ?w1" "lookup w' = lookup ?w1"
      "length (heap w') = length (heap ?w1)"
      "\<forall>r\<in>set cs. is_Cell (heap ?w1 ! r)"
      "\<forall>i<length (heap ?w1). heap w' ! i =
          (if i \<in> set cs then cleared (heap ?w1 ! i) else heap ?w1 ! i)"
      "trace w' = trace ?w1 @ concat (map (destroy_log (heap ?w1)) cs)"
      by blast+
    have lk: "lookup ?w1 = lookup w" by (rule lookup_cong) simp_all
    have cells: "\<forall>r\<in>set (c # cs). is_Cell (heap w ! r)"
    proof
      fix r assume r: "r \<in> set (c # cs)"
      show "is_Cell (heap w ! r)"
      proof (cases "r = c")
        case True
        with Cell_object show ?thesis by simp
      next
        case False
        with r have "r \<in> set cs" by simp
        with ih(5) have "is_Cell (heap ?w1 ! r)" by blast
        with False show ?thesis by simp
      qed
    qed
    have heap: "\<forall>i<length (heap w). heap w' ! i =
              (if i \<in> set (c # cs) then cleared (heap w ! i) else heap w ! i)"
    proof (intro allI impI)
      fix i assume i: "i < length (heap w)"
      then have "heap w' ! i =
          (if i \<in> set cs then cleared (heap ?w1 ! i) else heap ?w1 ! i)"
        using ih(6) by simp
      then show "heap w' ! i = (if i \<in> set (c # cs) then cleared (heap w ! i) else heap w ! i)"
        using i by (cases "i = c") simp_all
    qed
    have "destroy_log (heap ?w1) = destroy_log (heap w)"
      by (rule ext) (simp add: destroy_log_update)
    then have tr: "trace w' = trace w @ concat (map (destroy_log (heap w)) (c # cs))"
      using ih(7) by simp
    have "activeCells w' = activeCells w" using ih(2) by simp
    moreover have "lookup w' = lookup w" using ih(3) lk by simp
    moreover have "length (heap w') = length (heap w)" using ih(4) by simp
    ultimately show ?thesis using ih(1) cells heap tr by blast
  qed
qed

lemma reload_Normal:
  assumes ok: "reload parse doc w = (Normal u, w')"
    and live: "\<forall>r\<in>set (activeCells w). r < length (heap w)"
  shows "activeCells w' =
           [length (heap w)..<length (heap w) + length (querySelectorAll_data_cell doc)]"
    and "lookup w' = lookup w"
    and "length (heap w') = length (heap w) + length (querySelectorAll_data_cell doc)"
    and "\<forall>r\<in>set (activeCells w). is_Cell (heap w ! r)"
    and "\<forall>i<length (heap w). heap w' ! i =
            (if i \<in> set (activeCells w) then cleared (heap w ! i) else heap w ! i)"
    and "\<exists>evs. list_all is_Constructed evs \<and>
            trace w' = trace w @ evs @ concat (map (destroy_log (heap w)) (activeCells w))"
proof -
  let ?ms = "querySelectorAll_data_cell doc"
  obtain r0 w1 where fb: "map_call (findAndBuild_each parse doc) ?ms w = (r0, w1)"
    by (cases "map_call (findAndBuild_each parse doc) ?ms w")
  obtain found where found: "r0 = Normal found"
    using ok fb by (cases r0) (simp_all add: reload_def findAndBuild_def)
  obtain r1 w2 where dz: "filter_call (destroyOrphans_each found) (activeCells w1) w1 = (r1, w2)"
    by (cases "filter_call (destroyOrphans_each found) (activeCells w1) w1")
  obtain kept where kept: "r1 = Normal kept"
    using ok fb found dz by (cases r1) (simp_all add: reload_def findAndBuild_def destroyOrphans_def)
  have w': "w' = w2\<lparr>activeCells := found\<rparr>"
    using ok fb found dz kept by (simp add: reload_def findAndBuild_def destroyOrphans_def)
  from build_effect[OF fb] found obtain os evs where e1: "activeCells w1 = activeCells w"
    "lookup w1 = lookup w" "heap w1 = heap w @ os" "trace w1 = trace w @ evs"
    "list_all is_Constructed evs" "found = [length (heap w)..<length (heap w) + length ?ms]"
    "length os = length ?ms" by blast
  have live1: "\<forall>r\<in>set (activeCells w1). r < length (heap w1)"
    using live e1(1,3) by auto
  from filter_destroy_effect[OF live1 dz[unfolded kept]] have e2:
    "activeCells w2 = activeCells w1" "lookup w2 = lookup w1"
    "length (heap w2) = length (heap w1)"
    "\<forall>r\<in>set (activeCells w1). is_Cell (heap w1 ! r)"
    "\<forall>i<length (heap w1). heap w2 ! i =
        (if i \<in> set (activeCells w1) then cleared (heap w1 ! i) else heap w1 ! i)"
    "trace w2 = trace w1 @ concat (map (destroy_log (heap w1)) (activeCells w1))"
    by blast+
  show "activeCells w' = [length (heap w)..<length (heap w) + length ?ms]"
    using w' e1(6) by simp
  have "lookup w' = lookup w2" by (rule lookup_cong) (simp_all add: w')
  then show "lookup w' = lookup w" using e2(2) e1(2) by simp
  show "length (heap w') = length (heap w) + length ?ms"
    using w' e2(3) e1(3,7) by simp
  show "\<forall>r\<in>set (activeCells w). is_Cell (heap w ! r)"
  proof
    fix r assume r: "r \<in> set (activeCells w)"
    with e2(4) e1(1) have "is_Cell (heap w1 ! r)" by simp
    moreover from r live have "r < length (heap w)" by blast
    ultimately show "is_Cell (heap w ! r)" using e1(3) by (simp add: nth_append)
  qed
  show "\<forall>i<length (heap w). heap w' ! i =
            (if i \<in> set (activeCells w) then cleared (heap w ! i) else heap w ! i)"
  proof (intro allI impI)
    fix i assume i: "i < length (heap w)"
    then have "i < length (heap w1)" using e1(3) by simp
    with e2(5) have "heap w2 ! i =
        (if i \<in> set (activeCells w1) then cleared (heap w1 ! i) else heap w1 ! i)"
      by blast
    moreover have "heap w1 ! i = heap w ! i" using i e1(3) by (simp add: nth_append)
    ultimately show "heap w' ! i =
            (if i \<in> set (activeCells w) then cleared (heap w ! i) else heap w ! i)"
      using w' e1(1) by simp
  qed
  have "map (destroy_log (heap w1)) (activeCells w) = map (destroy_log (heap w)) (activeCells w)"
    using live e1(3) by (simp add: destroy_log_def nth_append)
  then have "concat (map (destroy_log (heap w1)) (activeCells w))
      = concat (map (destroy_log (heap w)) (activeCells w))"
    by (rule arg_cong)
  moreover have "trace w' = trace w @ evs @ concat (map (destroy_log (heap w1)) (activeCells w))"
    using w' e2(6) e1(1,4) by simp
  ultimately have "trace w' = trace w @ evs @ concat (map (destroy_log (heap w)) (activeCells w))"
    by (simp only:)
  with e1(5) show "\<exists>evs. list_all is_Constructed evs \<and>
            trace w' = trace w @ evs @ concat (map (destroy_log (heap w)) (activeCells w))"
    by blast
qed

lemma element_of_eq:
  "element_of w r =
     (if r < length (heap w)
      then (case heap w ! r of Cell_object c \<Rightarrow> element c | Array_object a \<Rightarrow> None)
      else None)"
  by (simp add: element_of_def cell_at_def object_at_def split: obj.splits)

section \<open>The example pages, evaluated\<close>

lemmas model_defs = reload_def initialize_def findAndBuild_def findAndBuild_each_eq
  construct_def Cell_constructor_def JSON_parse_def ToString_def querySelectorAll_data_cell_def
  destroyOrphans_def destroyOrphans_each_def destroy_def cell_at_def object_at_def
  element_of_def register_def lookup_def truthy_def array_index_def is_digit_def
  Array_inherited_def inherited_methods_def Builder_init_def parse_sample_def Foo_def Bar_def
  page1_def page2_def page_faulty_def page_no_params_def page_unknown_def
  page_constructor_def no_data_def events_during_def Let_def

lemma registered_eq:
  "registered = \<lparr>activeCells = [], availableCells = [''Foo'' \<mapsto> Foo, ''Bar'' \<mapsto> Bar],
     availableCells_length = 0, inherited = Array_inherited, heap = [], trace = []\<rparr>"
  by (simp add: registered_def model_defs)

lemma loaded_eq:
  "loaded = \<lparr>activeCells = [0, 1],
     availableCells = [''Foo'' \<mapsto> Foo, ''Bar'' \<mapsto> Bar],
     availableCells_length = 0, inherited = Array_inherited,
     heap = [Cell_object \<lparr>element = Some 1, name = ''Foo'', params = 1, class_of = Foo\<rparr>,
             Cell_object \<lparr>element = Some 2, name = ''Bar'', params = 2, class_of = Bar\<rparr>],
     trace = [Constructed 0 1, Constructed 1 2]\<rparr>"
  by (simp add: loaded_def registered_eq model_defs)

lemma loaded_page2:
  "reload parse_sample page2 loaded = (Normal (),
    \<lparr>activeCells = [2, 3],
     availableCells = [''Foo'' \<mapsto> Foo, ''Bar'' \<mapsto> Bar],
     availableCells_length = 0, inherited = Array_inherited,
     heap = [Cell_object \<lparr>element = None, name = ''Foo'', params = 1, class_of = Foo\<rparr>,
             Cell_object \<lparr>element = None, name = ''Bar'', params = 2, class_of = Bar\<rparr>,
             Cell_object \<lparr>element = Some 2, name = ''Bar'', params = 2, class_of = Bar\<rparr>,
             Cell_object \<lparr>element = Some 3, name = ''Foo'', params = 3, class_of = Foo\<rparr>],
     trace = [Constructed 0 1, Constructed 1 2, Constructed 2 2, Constructed 3 3,
              DestroyCalled 0 None, OnDestroy 0 None None, DestroyCalled 1 None]\<rparr>)"
  by (simp add: loaded_eq model_defs)

lemma loaded_page1:
  "reload parse_sample page1 loaded = (Normal (),
    \<lparr>activeCells = [2, 3],
     availableCells = [''Foo'' \<mapsto> Foo, ''Bar'' \<mapsto> Bar],
     availableCells_length = 0, inherited = Array_inherited,
     heap = [Cell_object \<lparr>element = None, name = ''Foo'', params = 1, class_of = Foo\<rparr>,
             Cell_object \<lparr>element = None, name = ''Bar'', params = 2, class_of = Bar\<rparr>,
             Cell_object \<lparr>element = Some 1, name = ''Foo'', params = 1, class_of = Foo\<rparr>,
             Cell_object \<lparr>element = Some 2, name = ''Bar'', params = 2, class_of = Bar\<rparr>],
     trace = [Constructed 0 1, Constructed 1 2, Constructed 2 1, Constructed 3 2,
              DestroyCalled 0 None, OnDestroy 0 None None, DestroyCalled 1 None]\<rparr>)"
  by (simp add: loaded_eq model_defs)

section \<open>Reading the log\<close>

lemma events_during_append: "trace w' = trace w @ evs \<Longrightarrow> events_during w w' = evs"
  by (simp add: events_during_def)

lemma destroy_calls_append:
  "destroy_calls c (xs @ ys) = destroy_calls c xs @ destroy_calls c ys"
  by (simp add: destroy_calls_def)

lemma destroy_calls_Constructed: "list_all is_Constructed evs \<Longrightarrow> destroy_calls c evs = []"
proof (induction evs)
  case Nil
  then show ?case by (simp add: destroy_calls_def)
next
  case (Cons ev evs)
  then show ?case by (cases ev) (simp_all add: destroy_calls_def)
qed

lemma destroy_calls_log:
  "is_Cell (h ! r) \<Longrightarrow>
     destroy_calls c (destroy_log h r) = (if r = c then [DestroyCalled c None] else [])"
  by (cases "h ! r") (simp_all add: destroy_calls_def destroy_log_def)

lemma destroy_calls_concat:
  "distinct cs \<Longrightarrow> \<forall>r\<in>set cs. is_Cell (h ! r) \<Longrightarrow>
     destroy_calls c (concat (map (destroy_log h) cs)) =
     (if c \<in> set cs then [DestroyCalled c None] else [])"
proof (induction cs)
  case Nil
  then show ?case by (simp add: destroy_calls_def)
next
  case (Cons r cs)
  then show ?case by (auto simp: destroy_calls_append destroy_calls_log)
qed

section \<open>Orphans\<close>

text \<open>
  Claim C5. For a cell of the previous live set whose element is not among the elements
  that carry \<^verbatim>\<open>data-cell\<close> in the new document, a successful \<^verbatim>\<open>reload()\<close> calls
  \<^verbatim>\<open>destroy\<close> on it exactly once, without an argument, and the cell is not in the new
  live set; its \<open>element\<close> is cleared. The previous live set is assumed to hold distinct
  references to allocated objects, as every live set built by \<^verbatim>\<open>reload()\<close> does.
\<close>

theorem reload_destroys_orphans:
  assumes ok: "reload parse doc w = (Normal u, w')"
    and live: "\<forall>r\<in>set (activeCells w). r < length (heap w)"
    and once: "distinct (activeCells w)"
    and c: "c \<in> set (activeCells w)"
    and orphan: "element_of w c = Some e" "e \<notin> set (querySelectorAll_data_cell doc)"
  shows "destroy_calls c (events_during w w') = [DestroyCalled c None]
       \<and> c \<notin> set (activeCells w') \<and> element_of w' c = None"
proof -
  note r = reload_Normal[OF ok live]
  from r(6) obtain evs where evs: "list_all is_Constructed evs"
    "trace w' = trace w @ evs @ concat (map (destroy_log (heap w)) (activeCells w))" by blast
  from evs(2) have "events_during w w' = evs @ concat (map (destroy_log (heap w)) (activeCells w))"
    by (rule events_during_append)
  then have one: "destroy_calls c (events_during w w') = [DestroyCalled c None]"
    using evs(1) once c r(4)
    by (simp add: destroy_calls_append destroy_calls_Constructed destroy_calls_concat)
  from live c have lt: "c < length (heap w)" by blast
  then have two: "c \<notin> set (activeCells w')" using r(1) by simp
  from r(5) lt c have "heap w' ! c = cleared (heap w ! c)" by simp
  moreover have "c < length (heap w')" using lt r(3) by simp
  ultimately have three: "element_of w' c = None"
    by (cases "heap w ! c") (simp_all add: element_of_eq cleared_def)
  from one two three show ?thesis by blast
qed

theorem reload_destroys_orphans_witness:
  "reload parse_sample page2 loaded = (Normal (), snd (reload parse_sample page2 loaded))
   \<and> list_all (\<lambda>r. r < length (heap loaded)) (activeCells loaded)
   \<and> distinct (activeCells loaded)
   \<and> 0 \<in> set (activeCells loaded)
   \<and> element_of loaded 0 = Some 1
   \<and> 1 \<notin> set (querySelectorAll_data_cell page2)
   \<and> destroy_calls 0 (events_during loaded (snd (reload parse_sample page2 loaded)))
       = [DestroyCalled 0 None]
   \<and> 0 \<notin> set (activeCells (snd (reload parse_sample page2 loaded)))
   \<and> element_of (snd (reload parse_sample page2 loaded)) 0 = None"
proof -
  have ok: "reload parse_sample page2 loaded = (Normal (), snd (reload parse_sample page2 loaded))"
    by (simp add: loaded_page2)
  have live: "\<forall>r\<in>set (activeCells loaded). r < length (heap loaded)"
    by (simp add: loaded_eq)
  have once: "distinct (activeCells loaded)" by (simp add: loaded_eq)
  have c: "0 \<in> set (activeCells loaded)" by (simp add: loaded_eq)
  have el: "element_of loaded 0 = Some 1" by (simp add: loaded_eq element_of_eq)
  have gone: "1 \<notin> set (querySelectorAll_data_cell page2)"
    by (simp add: querySelectorAll_data_cell_def page2_def no_data_def)
  from reload_destroys_orphans[OF ok live once c el gone] ok live once c el gone
  show ?thesis by (simp add: list_all_iff)
qed

section \<open>findByElement\<close>

text \<open>
  Claim C10. \<^verbatim>\<open>findByElement(element, cells)\<close> evaluates to \<^verbatim>\<open>undefined\<close> for every
  element and every list of cells, also when the list holds a cell whose \<open>element\<close> is the
  argument: the lookup is evaluated and its value is never returned.
\<close>

theorem findByElement_returns_undefined: "findByElement w el cells = None"
  unfolding findByElement_def Let_def by (rule refl)

section \<open>destroy\<close>

text \<open>
  Claim C8. On an allocated cell, \<^verbatim>\<open>destroy(e)\<close> sets \<open>element\<close> to \<^verbatim>\<open>null\<close>, then calls
  \<^verbatim>\<open>onDestroy(e)\<close> when the class defines it (the hook finds \<open>this.element\<close> already
  cleared) and does nothing otherwise, and returns \<open>e\<close>. Afterwards the cell has no
  element.
\<close>

theorem destroy_clears_element_then_calls_hook:
  assumes "cell_at w this = Some c"
  shows "destroy this el w =
           (el, w\<lparr>heap := (heap w)[this := Cell_object (c\<lparr>element := None\<rparr>)],
                 trace := trace w @ DestroyCalled this el #
                   (if defines_onDestroy (class_of c) then [OnDestroy this el None] else [])\<rparr>)
       \<and> element_of (snd (destroy this el w)) this = None"
proof -
  from assms have lt: "this < length (heap w)" and c: "heap w ! this = Cell_object c"
    by (simp_all add: cell_at_def object_at_def split: if_splits obj.splits)
  from destroy_effect[OF lt c, of el] lt show ?thesis
    by (simp add: element_of_eq)
qed

theorem destroy_clears_element_then_calls_hook_witness:
  "cell_at loaded 0 = Some \<lparr>element = Some 1, name = ''Foo'', params = 1, class_of = Foo\<rparr>
   \<and> destroy 0 (Some 1) loaded =
        (Some 1, loaded\<lparr>heap :=
                          [Cell_object \<lparr>element = None, name = ''Foo'', params = 1, class_of = Foo\<rparr>,
                           Cell_object \<lparr>element = Some 2, name = ''Bar'', params = 2, class_of = Bar\<rparr>],
                        trace := [Constructed 0 1, Constructed 1 2,
                                  DestroyCalled 0 (Some 1), OnDestroy 0 (Some 1) None]\<rparr>)
   \<and> element_of (snd (destroy 0 (Some 1) loaded)) 0 = None"
proof -
  have c: "cell_at loaded 0 = Some \<lparr>element = Some 1, name = ''Foo'', params = 1, class_of = Foo\<rparr>"
    by (simp add: loaded_eq cell_at_def object_at_def)
  from destroy_clears_element_then_calls_hook[OF c, of "Some 1"] c show ?thesis
    by (simp add: loaded_eq Foo_def cell_at_def object_at_def element_of_def)
qed

section \<open>Elements that stay on the page\<close>

text \<open>
  Claim C1, on the code. Node 2 carries \<^verbatim>\<open>data-cell\<close> on the first page and on the second,
  and after \<^verbatim>\<open>initialize()\<close> the cell at address 1 is bound to it. The \<^verbatim>\<open>reload()\<close> on the
  second page succeeds, but the live set then holds a new object (address 2) for node 2:
  the constructor ran for it, \<^verbatim>\<open>reload\<close> was called on no cell, and the old cell was
  destroyed and has lost its element.
\<close>

theorem reload_replaces_cell_of_kept_element:
  "2 \<in> set (querySelectorAll_data_cell page1) \<and> 2 \<in> set (querySelectorAll_data_cell page2)
   \<and> activeCells loaded = [0, 1] \<and> element_of loaded 1 = Some 2
   \<and> fst (reload parse_sample page2 loaded) = Normal ()
   \<and> activeCells (snd (reload parse_sample page2 loaded)) = [2, 3]
   \<and> element_of (snd (reload parse_sample page2 loaded)) 2 = Some 2
   \<and> element_of (snd (reload parse_sample page2 loaded)) 1 = None
   \<and> events_during loaded (snd (reload parse_sample page2 loaded))
        = [Constructed 2 2, Constructed 3 3,
           DestroyCalled 0 None, OnDestroy 0 None None, DestroyCalled 1 None]
   \<and> reload_calls (events_during loaded (snd (reload parse_sample page2 loaded))) = []"
  unfolding loaded_page2
  by (simp add: loaded_eq querySelectorAll_data_cell_def page1_def page2_def
      no_data_def element_of_eq events_during_def reload_calls_def)

text \<open>
  Claim C2, on the code. Two calls of \<^verbatim>\<open>reload()\<close> on the same page, one after the other:
  the first leaves the cells at addresses 2 and 3, the second replaces them by new objects
  at 4 and 5. During the second call both elements are constructed again, both cells of
  the first call are destroyed, and \<^verbatim>\<open>reload\<close> is called on no cell.
\<close>

theorem reload_twice_rebuilds_every_cell:
  "fst (reload parse_sample page1 loaded) = Normal ()
   \<and> activeCells (snd (reload parse_sample page1 loaded)) = [2, 3]
   \<and> fst (reload parse_sample page1 (snd (reload parse_sample page1 loaded))) = Normal ()
   \<and> activeCells (snd (reload parse_sample page1 (snd (reload parse_sample page1 loaded))))
        = [4, 5]
   \<and> events_during (snd (reload parse_sample page1 loaded))
        (snd (reload parse_sample page1 (snd (reload parse_sample page1 loaded))))
        = [Constructed 4 1, Constructed 5 2,
           DestroyCalled 2 None, OnDestroy 2 None None, DestroyCalled 3 None]
   \<and> reload_calls (events_during (snd (reload parse_sample page1 loaded))
        (snd (reload parse_sample page1 (snd (reload parse_sample page1 loaded))))) = []"
  unfolding loaded_page1 snd_conv fst_conv
  by (simp add: model_defs reload_calls_def)

section \<open>Names that the array inherits\<close>

lemma registered_constructor:
  "initialize parse_sample page_constructor registered = (Normal (),
    \<lparr>activeCells = [0, 1],
     availableCells = [''Foo'' \<mapsto> Foo, ''Bar'' \<mapsto> Bar],
     availableCells_length = 0, inherited = Array_inherited,
     heap = [Cell_object \<lparr>element = Some 1, name = ''Foo'', params = 1, class_of = Foo\<rparr>,
             Array_object [2]],
     trace = [Constructed 0 1]\<rparr>)"
  by (simp add: registered_eq model_defs)

lemma loaded_constructor_eq:
  "loaded_constructor = \<lparr>activeCells = [0, 1],
     availableCells = [''Foo'' \<mapsto> Foo, ''Bar'' \<mapsto> Bar],
     availableCells_length = 0, inherited = Array_inherited,
     heap = [Cell_object \<lparr>element = Some 1, name = ''Foo'', params = 1, class_of = Foo\<rparr>,
             Array_object [2]],
     trace = [Constructed 0 1]\<rparr>"
  by (simp add: loaded_constructor_def registered_constructor)

lemma loaded_constructor_reload:
  "reload parse_sample page_constructor loaded_constructor = (Throw (TypeError Not_a_function),
    \<lparr>activeCells = [0, 1],
     availableCells = [''Foo'' \<mapsto> Foo, ''Bar'' \<mapsto> Bar],
     availableCells_length = 0, inherited = Array_inherited,
     heap = [Cell_object \<lparr>element = None, name = ''Foo'', params = 1, class_of = Foo\<rparr>,
             Array_object [2],
             Cell_object \<lparr>element = Some 1, name = ''Foo'', params = 1, class_of = Foo\<rparr>,
             Array_object [2]],
     trace = [Constructed 0 1, Constructed 2 1, DestroyCalled 0 None, OnDestroy 0 None None]\<rparr>)"
  by (simp add: loaded_constructor_eq model_defs)

text \<open>
  Claim C3, on the code. Node 2 of the page carries \<^verbatim>\<open>data-cell="constructor"\<close>, a name
  under which no class is registered. \<^verbatim>\<open>this.availableCells[cellName]\<close> is then the
  function \<^verbatim>\<open>Array\<close>, which the array inherits, the guard for an unknown name does not
  fire, and \<^verbatim>\<open>initialize()\<close> succeeds. The live set holds the array \<^verbatim>\<open>[element]\<close> where a
  cell for node 2 should be: no object of the live set has node 2 as its \<open>element\<close>.
\<close>

theorem initialize_publishes_array_for_inherited_name:
  "2 \<in> set (querySelectorAll_data_cell page_constructor)
   \<and> data_cell (dataset_of page_constructor 2) = Some ''constructor''
   \<and> availableCells registered ''constructor'' = None
   \<and> fst (initialize parse_sample page_constructor registered) = Normal ()
   \<and> activeCells (snd (initialize parse_sample page_constructor registered)) = [0, 1]
   \<and> object_at (snd (initialize parse_sample page_constructor registered)) 1
        = Some (Array_object [2])
   \<and> cell_at (snd (initialize parse_sample page_constructor registered)) 1 = None
   \<and> filter (\<lambda>r. element_of (snd (initialize parse_sample page_constructor registered)) r
                    = Some 2)
        (activeCells (snd (initialize parse_sample page_constructor registered))) = []"
  unfolding registered_constructor
  by (simp add: registered_eq querySelectorAll_data_cell_def page_constructor_def no_data_def
      object_at_def cell_at_def element_of_def)

text \<open>
  Claim C4, on the code. After \<^verbatim>\<open>initialize()\<close> on that page the live set is the cell of
  node 1 and the array. The next \<^verbatim>\<open>reload()\<close> builds both objects anew, calls
  \<^verbatim>\<open>destroy()\<close> on the cell of node 1 and then fails with a \<^verbatim>\<open>TypeError\<close>, because the array
  has no \<^verbatim>\<open>destroy\<close>. \<open>activeCells\<close> is not assigned, so the live set after the failed call
  still lists the cell of node 1, which has been destroyed and has lost its element.
\<close>

theorem reload_fails_after_destroying_a_cell:
  "activeCells loaded_constructor = [0, 1]
   \<and> element_of loaded_constructor 0 = Some 1
   \<and> fst (reload parse_sample page_constructor loaded_constructor)
        = Throw (TypeError Not_a_function)
   \<and> activeCells (snd (reload parse_sample page_constructor loaded_constructor)) = [0, 1]
   \<and> element_of (snd (reload parse_sample page_constructor loaded_constructor)) 0 = None
   \<and> destroy_calls 0 (events_during loaded_constructor
          (snd (reload parse_sample page_constructor loaded_constructor)))
        = [DestroyCalled 0 None]"
  unfolding loaded_constructor_reload
  by (simp add: loaded_constructor_eq element_of_eq events_during_def destroy_calls_def)

section \<open>A pass that fails while it builds\<close>


lemma each_bad_params:
  assumes "lookup w (ToString (data_cell (dataset_of doc el))) = Some (Class cls)"
    and "JSON_parse parse (data_cellParams (dataset_of doc el)) = None"
  shows "findAndBuild_each parse doc el w = (Throw SyntaxError, w)"
  using assms
  by (simp add: findAndBuild_each_eq truthy_def construct_def Cell_constructor_def)

lemma each_is_Throw_cong:
  assumes "lookup w1 = lookup w"
  shows "is_Throw (fst (findAndBuild_each parse doc e w1))
       = is_Throw (fst (findAndBuild_each parse doc e w))"
proof (cases "lookup w (ToString (data_cell (dataset_of doc e)))")
  case None
  with assms show ?thesis by (simp add: findAndBuild_each_eq)
next
  case (Some ctor)
  show ?thesis
  proof (cases "truthy (Some ctor)")
    case False
    with Some assms show ?thesis by (simp add: findAndBuild_each_eq)
  next
    case True
    have "is_Throw (fst (construct parse doc ctor e w1))
        = is_Throw (fst (construct parse doc ctor e w))"
    proof (cases ctor)
      case (Class cls)
      then show ?thesis
        by (cases "JSON_parse parse (data_cellParams (dataset_of doc e))";
            cases "subclass_constructor cls e")
           (simp_all add: construct_def Cell_constructor_def)
    next
      case (Number n)
      then show ?thesis by (simp add: construct_def)
    next
      case (Inherited i)
      then show ?thesis by (cases i) (simp_all add: construct_def)
    qed
    with Some True assms show ?thesis by (simp add: findAndBuild_each_eq)
  qed
qed

lemma map_call_Throw_later:
  assumes "f x w = (Normal y, w1)" and "fst (map_call f xs w1) = Throw err"
  shows "fst (map_call f (x # xs) w) = Throw err"
proof (cases "map_call f xs w1")
  case (Pair res w2)
  with assms show ?thesis by simp
qed

lemma build_throws:
  "el \<in> set es \<Longrightarrow> is_Throw (fst (findAndBuild_each parse doc el w)) \<Longrightarrow>
   \<exists>err. fst (map_call (findAndBuild_each parse doc) es w) = Throw err"
proof (induction es arbitrary: w)
  case Nil
  then show ?case by simp
next
  case (Cons e es)
  obtain r0 wa where step: "findAndBuild_each parse doc e w = (r0, wa)"
    by (cases "findAndBuild_each parse doc e w")
  show ?case
  proof (cases r0)
    case (Throw x)
    with step show ?thesis by simp
  next
    case (Normal r)
    have "e \<noteq> el"
    proof
      assume "e = el"
      with step Normal have "fst (findAndBuild_each parse doc el w) = Normal r" by simp
      with Cons.prems(2) show False by simp
    qed
    with Cons.prems(1) have mem: "el \<in> set es" by simp
    from each_effect[OF step] have lk: "lookup wa = lookup w" by blast
    from Cons.prems(2) have "is_Throw (fst (findAndBuild_each parse doc el wa))"
      by (simp add: each_is_Throw_cong[OF lk])
    from Cons.IH[OF mem this] obtain err
      where "fst (map_call (findAndBuild_each parse doc) es wa) = Throw err" by blast
    from map_call_Throw_later[OF step[unfolded Normal] this] show ?thesis by blast
  qed
qed


lemma reload_of_build_Throw:
  assumes "fst (findAndBuild parse doc w) = Throw err"
  shows "reload parse doc w = (Throw err, snd (findAndBuild parse doc w))"
  using assms by (cases "findAndBuild parse doc w") (simp add: reload_def)


lemma reload_throws:
  assumes "el \<in> set (querySelectorAll_data_cell doc)"
    and "is_Throw (fst (findAndBuild_each parse doc el w))"
  shows "\<exists>err. fst (findAndBuild parse doc w) = Throw err \<and> fst (reload parse doc w) = Throw err"
proof -
  from build_throws[OF assms] obtain err
    where "fst (findAndBuild parse doc w) = Throw err" by (auto simp: findAndBuild_def)
  with reload_of_build_Throw[OF this] show ?thesis by simp
qed

section \<open>An unregistered class\<close>




section \<open>register\<close>

lemma lookup_None:
  "lookup w k = None \<longleftrightarrow>
     k \<noteq> ''length'' \<and> k \<noteq> ''__proto__'' \<and> availableCells w k = None \<and> inherited w k = None"
  by (simp add: lookup_def split: option.splits)

lemma lookup_Class:
  "lookup w k = Some (Class c) \<longleftrightarrow>
     k \<noteq> ''length'' \<and> k \<noteq> ''__proto__'' \<and> availableCells w k = Some c"
  by (auto simp: lookup_def split: option.splits)

lemma register_taken:
  "truthy (lookup w (class_name d)) \<Longrightarrow> register d w = (Normal (), w)"
  by (simp add: register_def Let_def)

lemma register_free:
  assumes "lookup w (class_name d) = None"
  shows "fst (register d w) = Normal ()"
    and "lookup (snd (register d w)) (class_name d) = Some (Class d)"
proof -
  from assms have falsy: "\<not> truthy (lookup w (class_name d))" by (simp add: truthy_def)
  from assms have k: "class_name d \<noteq> ''length''" "class_name d \<noteq> ''__proto__''"
    by (simp_all add: lookup_None)
  from falsy k(1) show "fst (register d w) = Normal ()"
    by (simp add: register_def Let_def)
  from falsy k show "lookup (snd (register d w)) (class_name d) = Some (Class d)"
    by (simp add: register_def Let_def lookup_Class)
qed

lemma register_keeps:
  assumes "lookup w k = Some (Class c)"
  shows "lookup (snd (register d w)) k = Some (Class c)"
proof (cases "truthy (lookup w (class_name d))")
  case True
  with assms show ?thesis by (simp add: register_taken)
next
  case False
  with assms have "class_name d \<noteq> k" by (auto simp: truthy_def)
  with assms False show ?thesis
    by (simp add: register_def Let_def lookup_Class)
qed

lemma register_all_keeps:
  "lookup w k = Some (Class c) \<Longrightarrow> lookup (register_all ds w) k = Some (Class c)"
  unfolding register_all_def
  by (induction ds arbitrary: w) (simp_all add: register_keeps)

text \<open>
  Claim C7, as the code has it. Take two classes of the same name, a name for which the
  array \<open>availableCells\<close> has no property yet: no class was registered under it before,
  it is not \<^verbatim>\<open>length\<close>, and it is not a name the array inherits from the host. Then
  \<^verbatim>\<open>register(c1)\<close> returns without an error, \<^verbatim>\<open>register(c2)\<close> after it returns without an
  error and leaves the whole builder as it was, and reading the name from
  \<open>availableCells\<close> yields \<open>c1\<close> from then on, whatever is registered later.
\<close>

theorem register_first_write_wins:
  assumes "class_name c2 = class_name c1"
    and "lookup w (class_name c1) = None"
  shows "fst (register c1 w) = Normal ()
       \<and> register c2 (snd (register c1 w)) = (Normal (), snd (register c1 w))
       \<and> (\<forall>ds. lookup (register_all ds (snd (register c2 (snd (register c1 w)))))
                  (class_name c1) = Some (Class c1))"
proof -
  note first = register_free[OF assms(2)]
  from first(2) assms(1) have "truthy (lookup (snd (register c1 w)) (class_name c2))"
    by (simp add: truthy_def)
  then have second: "register c2 (snd (register c1 w)) = (Normal (), snd (register c1 w))"
    by (rule register_taken)
  have "\<forall>ds. lookup (register_all ds (snd (register c1 w))) (class_name c1) = Some (Class c1)"
    using first(2) by (simp add: register_all_keeps)
  with first(1) second show ?thesis by simp
qed

theorem register_first_write_wins_witness:
  "class_name Foo2 = class_name Foo \<and> Foo2 \<noteq> Foo
   \<and> lookup (Builder_init :: nat world) (class_name Foo) = None
   \<and> fst (register Foo (Builder_init :: nat world)) = Normal ()
   \<and> register Foo2 (snd (register Foo (Builder_init :: nat world)))
        = (Normal (), snd (register Foo Builder_init))
   \<and> lookup (register_all [Bar, Foo2]
        (snd (register Foo2 (snd (register Foo (Builder_init :: nat world))))))
        (class_name Foo) = Some (Class Foo)"
proof -
  have n: "class_name Foo2 = class_name Foo" by (simp add: Foo_def Foo2_def)
  have differ: "Foo2 \<noteq> Foo" by (simp add: Foo_def Foo2_def)
  have free: "lookup (Builder_init :: nat world) (class_name Foo) = None"
    by (simp add: Builder_init_def Foo_def lookup_def Array_inherited_def inherited_methods_def)
  note t = register_first_write_wins[OF n free]
  from t have ok: "fst (register Foo (Builder_init :: nat world)) = Normal ()"
    by (rule conjunct1)
  from t have noop: "register Foo2 (snd (register Foo (Builder_init :: nat world)))
        = (Normal (), snd (register Foo Builder_init))"
    by blast
  from t have "\<forall>ds. lookup (register_all ds
        (snd (register Foo2 (snd (register Foo (Builder_init :: nat world))))))
        (class_name Foo) = Some (Class Foo)"
    by blast
  then have later: "lookup (register_all [Bar, Foo2]
        (snd (register Foo2 (snd (register Foo (Builder_init :: nat world))))))
        (class_name Foo) = Some (Class Foo)"
    by (rule spec)
  from n differ free ok noop later show ?thesis by (intro conjI)
qed

text \<open>
  Claim C7 as the specification words it fails. First-write-wins holds against \<open>c1\<close> too:
  with \<^verbatim>\<open>Foo2\<close> registered before, \<^verbatim>\<open>register(Foo)\<close> and \<^verbatim>\<open>register(Foo2)\<close> leave the name
  \<^verbatim>\<open>Foo\<close> with \<^verbatim>\<open>Foo2\<close>, not with \<^verbatim>\<open>Foo\<close>. And since \<open>availableCells\<close> is an array, registering
  a class named \<^verbatim>\<open>length\<close> raises \<^verbatim>\<open>RangeError\<close>, and a class named \<^verbatim>\<open>constructor\<close> is never
  stored: the name goes on yielding the function \<^verbatim>\<open>Array\<close>.
\<close>

theorem register_not_always_first_write:
  "class_name Foo2 = class_name Foo \<and> Foo2 \<noteq> Foo
   \<and> lookup (register_all [Foo2, Foo, Foo2] (Builder_init :: nat world)) ''Foo''
        = Some (Class Foo2)
   \<and> fst (register Length_class (Builder_init :: nat world)) = Throw RangeError
   \<and> lookup (register_all [Constructor_class, Constructor_class] (Builder_init :: nat world))
        ''constructor'' = Some (Inherited The_Array_function)"
  by (simp add: register_all_def Foo2_def Length_class_def Constructor_class_def model_defs)

section \<open>The constructor\<close>

text \<open>
  Claim C9. The constructor raises when the element has no \<^verbatim>\<open>data-cell-params\<close> attribute
  or when the attribute's text does not parse. A \<^verbatim>\<open>reload()\<close> that comes to construct a
  cell from such an element fails: this is every pass over a document that has the
  element among its \<^verbatim>\<open>data-cell\<close> elements, with a name that \<open>availableCells\<close> resolves to
  a class. A construction that returns has stored the parsed value in \<open>params\<close> of the new
  cell.
\<close>

theorem Cell_constructor_requires_params:
  "(data_cellParams (dataset_of doc el) = None
      \<or> (\<exists>s. data_cellParams (dataset_of doc el) = Some s \<and> parse s = None)
    \<longrightarrow> Cell_constructor parse doc cls el w = (Throw SyntaxError, w)
        \<and> (el \<in> set (querySelectorAll_data_cell doc)
             \<and> lookup w (ToString (data_cell (dataset_of doc el))) = Some (Class cls)
             \<longrightarrow> (\<exists>err. fst (reload parse doc w) = Throw err)))
   \<and> (Cell_constructor parse doc cls el w = (Normal r, w')
    \<longrightarrow> (\<exists>s c. data_cellParams (dataset_of doc el) = Some s \<and> cell_at w' r = Some c
               \<and> parse s = Some (params c) \<and> element c = Some el
               \<and> name c = class_name cls))"
proof (intro conjI impI)
  assume bad: "data_cellParams (dataset_of doc el) = None
      \<or> (\<exists>s. data_cellParams (dataset_of doc el) = Some s \<and> parse s = None)"
  then have none: "JSON_parse parse (data_cellParams (dataset_of doc el)) = None"
    by (auto simp: JSON_parse_def)
  then show "Cell_constructor parse doc cls el w = (Throw SyntaxError, w)"
    by (simp add: Cell_constructor_def)
  assume "el \<in> set (querySelectorAll_data_cell doc)
             \<and> lookup w (ToString (data_cell (dataset_of doc el))) = Some (Class cls)"
  then have marked: "el \<in> set (querySelectorAll_data_cell doc)"
    and cls: "lookup w (ToString (data_cell (dataset_of doc el))) = Some (Class cls)"
    by simp_all
  from each_bad_params[OF cls none]
  have "is_Throw (fst (findAndBuild_each parse doc el w))" by simp
  from reload_throws[OF marked this]
  show "\<exists>err. fst (reload parse doc w) = Throw err" by blast
next
  assume ok: "Cell_constructor parse doc cls el w = (Normal r, w')"
  then obtain ps where ps: "JSON_parse parse (data_cellParams (dataset_of doc el)) = Some ps"
    by (cases "JSON_parse parse (data_cellParams (dataset_of doc el))")
       (simp_all add: Cell_constructor_def)
  let ?c = "\<lparr>element = Some el, name = class_name cls, params = ps, class_of = cls\<rparr>"
  from ps ok have r: "r = length (heap w)"
    and w': "w' = w\<lparr>heap := heap w @ [Cell_object ?c],
             trace := trace w @ [Constructed (length (heap w)) el]\<rparr>"
    by (auto simp: Cell_constructor_def)
  from ps obtain s where s: "data_cellParams (dataset_of doc el) = Some s" "parse s = Some ps"
    by (cases "data_cellParams (dataset_of doc el)") (simp_all add: JSON_parse_def)
  from r w' have "cell_at w' r = Some ?c" by (simp add: cell_at_def object_at_def)
  with s show "\<exists>s c. data_cellParams (dataset_of doc el) = Some s \<and> cell_at w' r = Some c
               \<and> parse s = Some (params c) \<and> element c = Some el
               \<and> name c = class_name cls"
    by simp
qed

theorem Cell_constructor_requires_params_witness:
  "data_cellParams (dataset_of page_no_params 2) = None
   \<and> Cell_constructor parse_sample page_no_params Bar 2 loaded = (Throw SyntaxError, loaded)
   \<and> 2 \<in> set (querySelectorAll_data_cell page_no_params)
   \<and> lookup loaded (ToString (data_cell (dataset_of page_no_params 2))) = Some (Class Bar)
   \<and> (\<exists>err. fst (reload parse_sample page_no_params loaded) = Throw err)
   \<and> data_cellParams (dataset_of page_faulty 1) = Some ''{'' \<and> parse_sample ''{'' = None
   \<and> Cell_constructor parse_sample page_faulty Foo 1 loaded = (Throw SyntaxError, loaded)
   \<and> fst (Cell_constructor parse_sample page2 Foo 3 loaded) = Normal 2
   \<and> data_cellParams (dataset_of page2 3) = Some ''3''
   \<and> map_option params (cell_at (snd (Cell_constructor parse_sample page2 Foo 3 loaded)) 2)
        = parse_sample ''3''
   \<and> element_of (snd (Cell_constructor parse_sample page2 Foo 3 loaded)) 2 = Some 3"
proof -
  have missing: "data_cellParams (dataset_of page_no_params 2) = None"
    by (simp add: page_no_params_def)
  have marked: "2 \<in> set (querySelectorAll_data_cell page_no_params)"
    by (simp add: querySelectorAll_data_cell_def page_no_params_def)
  have cls: "lookup loaded (ToString (data_cell (dataset_of page_no_params 2))) = Some (Class Bar)"
    by (simp add: loaded_eq page_no_params_def ToString_def lookup_def)
  have malformed: "data_cellParams (dataset_of page_faulty 1) = Some ''{''" "parse_sample ''{'' = None"
    by (simp_all add: page_faulty_def parse_sample_def)
  have built: "Cell_constructor parse_sample page2 Foo 3 loaded
      = (Normal 2, snd (Cell_constructor parse_sample page2 Foo 3 loaded))"
    by (simp add: Cell_constructor_def JSON_parse_def page2_def parse_sample_def loaded_eq)
  have attr: "data_cellParams (dataset_of page2 3) = Some ''3''"
    by (simp add: page2_def)
  have first: "fst (Cell_constructor parse_sample page2 Foo 3 loaded) = Normal 2"
    by (simp add: Cell_constructor_def JSON_parse_def page2_def parse_sample_def loaded_eq)
  from Cell_constructor_requires_params[where doc = page_no_params and el = 2
      and parse = parse_sample and cls = Bar and w = loaded] missing marked cls
  have a: "Cell_constructor parse_sample page_no_params Bar 2 loaded = (Throw SyntaxError, loaded)"
    and fails: "\<exists>err. fst (reload parse_sample page_no_params loaded) = Throw err"
    by blast+
  from Cell_constructor_requires_params[where doc = page_faulty and el = 1
      and parse = parse_sample and cls = Foo and w = loaded] malformed
  have b: "Cell_constructor parse_sample page_faulty Foo 1 loaded = (Throw SyntaxError, loaded)"
    by blast
  from Cell_constructor_requires_params[where doc = page2 and el = 3
      and parse = parse_sample and cls = Foo and w = loaded and r = 2
      and w' = "snd (Cell_constructor parse_sample page2 Foo 3 loaded)"] built attr
  obtain c where c: "cell_at (snd (Cell_constructor parse_sample page2 Foo 3 loaded)) 2 = Some c"
    "parse_sample ''3'' = Some (params c)" "element c = Some 3"
    by auto
  then have p: "map_option params (cell_at (snd (Cell_constructor parse_sample page2 Foo 3 loaded)) 2)
        = parse_sample ''3''"
    and d: "element_of (snd (Cell_constructor parse_sample page2 Foo 3 loaded)) 2 = Some 3"
    by (simp_all add: element_of_def)
  from missing a marked cls fails malformed b first attr p d show ?thesis
    by (intro conjI)
qed

end
